theory Spec2Isabelle
  imports Complex_Main
begin

section \<open>Values, errors and constants\<close>

text \<open>
  The package stores every number as a Go \<^verbatim>\<open>float64\<close>. The embedding reads a
  \<^verbatim>\<open>float64\<close> as the real number it denotes: comparisons are the order of the reals
  and the shoelace sum is computed exactly. NaN, the infinities and rounding are outside
  the model; the largest finite value \<^verbatim>\<open>math.MaxFloat64\<close> is kept as a constant
  because \<^verbatim>\<open>bbox\<close> starts its altitude range from it.

  A Go slice is a list. \<^verbatim>\<open>Coordinates\<close> is \<^verbatim>\<open>[]float64\<close> of any length (the
  type itself does not force two or three entries), so reading index 0, 1 or 2 of a
  shorter slice is the run-time panic of the source; functions that can only fail that
  way return \<open>None\<close> for the panic.
\<close>

type_synonym float64 = real
type_synonym Coordinates = "float64 list"
type_synonym Vertices = "Coordinates list"
type_synonym LinearRing = "Coordinates list"
type_synonym LinearRings = "LinearRing list"
type_synonym Segments = "Vertices list"
type_synonym BoundingBox = "float64 list"

text \<open>
  The error values of the package. \<open>Errorf m e\<close> is \<^verbatim>\<open>fmt.Errorf(m, e)\<close> with the
  verb \<^verbatim>\<open>%w\<close>: an error that wraps \<open>e\<close>. \<open>ErrJSONUnmarshal\<close> is any error of
  the JSON codec itself (a value of the wrong JSON type for a field).
  \<open>PanicIndexOutOfRange\<close> stands for the run-time panic of an out-of-range index inside
  a function that otherwise returns an error value.
\<close>

datatype error =
    ErrLongitudeRange
  | ErrLatitudeRange
  | ErrCoordinatesSize
  | ErrInvalidCoordinates
  | ErrInvalidTypeField
  | ErrGeometryNotDefined
  | ErrGeometryTypeMismatch
  | ErrLinearRingSize
  | ErrLinearRingClosed
  | ErrPolygonLinearRingCount
  | ErrLineStringTooShort
  | ErrMultiLineStringTooShort
  | ErrGeometryCollectionBuildCoordinates
  | ErrInvalidFeature
  | ErrInvalidID
  | ErrJSONUnmarshal
  | Errorf string error
  | PanicIndexOutOfRange


definition LongitudeMin :: float64 where "LongitudeMin = -180"
definition LongitudeMax :: float64 where "LongitudeMax = 180"
definition LatitudeMin :: float64 where "LatitudeMin = -90"
definition LatitudeMax :: float64 where "LatitudeMax = 90"

definition idxCoordsLng :: nat where "idxCoordsLng = 0"
definition idxCoordsLat :: nat where "idxCoordsLat = 1"
definition idxCoordsAlt :: nat where "idxCoordsAlt = 2"

definition coordsMinLen :: nat where "coordsMinLen = 2"
definition coordsMaxLen :: nat where "coordsMaxLen = 3"

definition MaxFloat64 :: float64 where
  "MaxFloat64 = (2 ^ 53 - 1) * 2 ^ 971"

section \<open>Coordinates (coordinates.go)\<close>

text \<open>\<^verbatim>\<open>validateCoordinates\<close> returns the error, or \<open>None\<close> for Go's nil error.\<close>

definition validateCoordinates :: "float64 \<Rightarrow> float64 \<Rightarrow> error option" where
  "validateCoordinates longitude latitude =
     (if longitude < LongitudeMin \<or> longitude > LongitudeMax then Some ErrLongitudeRange
      else if latitude < LatitudeMin \<or> latitude > LatitudeMax then Some ErrLatitudeRange
      else None)"

text \<open>
  \<^verbatim>\<open>NewCoordinates\<close>: the length test comes first, so the two reads of \<open>v\<close> are in
  range. \<open>c\<close> is the slice made by \<^verbatim>\<open>make(Coordinates, len(v))\<close>, filled with zeros
  and then assigned by index.
\<close>

definition NewCoordinates :: "float64 list \<Rightarrow> error + Coordinates" where
  "NewCoordinates v =
     (if length v \<noteq> coordsMinLen \<and> length v \<noteq> coordsMaxLen then Inl ErrCoordinatesSize
      else
        let c0 = replicate (length v) (0::float64);
            c1 = c0[idxCoordsLng := v ! idxCoordsLng];
            c2 = c1[idxCoordsLat := v ! idxCoordsLat]
        in case validateCoordinates (c2 ! idxCoordsLng) (c2 ! idxCoordsLat) of
             Some err \<Rightarrow> Inl (Errorf ''invalid coordinates: %w'' err)
           | None \<Rightarrow>
               Inr (if length v = coordsMaxLen then c2[idxCoordsAlt := v ! idxCoordsAlt] else c2))"

definition Longitude :: "Coordinates \<Rightarrow> float64 option" where
  "Longitude c = (if idxCoordsLng < length c then Some (c ! idxCoordsLng) else None)"

definition Latitude :: "Coordinates \<Rightarrow> float64 option" where
  "Latitude c = (if idxCoordsLat < length c then Some (c ! idxCoordsLat) else None)"

definition HasAltitude :: "Coordinates \<Rightarrow> bool" where
  "HasAltitude c = (length c = coordsMaxLen)"

definition Altitude :: "Coordinates \<Rightarrow> float64 option" where
  "Altitude c = (if idxCoordsAlt < length c then Some (c ! idxCoordsAlt) else None)"

text \<open>\<^verbatim>\<open>IsEqual\<close> is \<^verbatim>\<open>slices.Compare(*c, v) == 0\<close>: same length, same entries.\<close>

definition IsEqual :: "Coordinates \<Rightarrow> Coordinates \<Rightarrow> bool" where
  "IsEqual c v = (c = v)"

section \<open>Linear rings (linear\_ring.go)\<close>

definition LinearRingMinimumSize :: nat where "LinearRingMinimumSize = 4"

definition HasValidSize :: "LinearRing \<Rightarrow> bool" where
  "HasValidSize lr = (length lr \<ge> LinearRingMinimumSize)"

definition IsClosed :: "LinearRing \<Rightarrow> bool" where
  "IsClosed lr =
     (if length lr = 0 then False
      else IsEqual (lr ! 0) (lr ! (length lr - 1)))"

definition IsValid :: "LinearRing \<Rightarrow> bool" where
  "IsValid lr = (HasValidSize lr \<and> IsClosed lr)"

text \<open>
  The loop of \<^verbatim>\<open>signedArea\<close>, \<^verbatim>\<open>for i := 0; i < len(ring)-1; i++\<close>, with the
  accumulator \<open>v\<close>. Each round reads entries 0 and 1 of \<^verbatim>\<open>ring[i]\<close> and of
  \<^verbatim>\<open>ring[i+1]\<close>; a vertex with fewer than two entries makes that read panic
  (\<open>None\<close>). A ring of fewer than two vertices runs no round.
\<close>

fun signedArea_loop :: "LinearRing \<Rightarrow> float64 \<Rightarrow> float64 option" where
  "signedArea_loop (p # q # rest) v =
     (if length p < 2 \<or> length q < 2 then None
      else
        let x1 = p ! idxCoordsLng; y1 = p ! idxCoordsLat;
            x2 = q ! idxCoordsLng; y2 = q ! idxCoordsLat
        in signedArea_loop (q # rest) (v + (x1 * y2 - x2 * y1)))"
| "signedArea_loop ring v = Some v"

definition signedArea :: "LinearRing \<Rightarrow> float64 option" where
  "signedArea ring = map_option (\<lambda>v. v * 0.5) (signedArea_loop ring 0)"

definition IsCounterClockwise :: "LinearRing \<Rightarrow> bool option" where
  "IsCounterClockwise lr = map_option (\<lambda>a. a > 0) (signedArea lr)"

definition IsClockwise :: "LinearRing \<Rightarrow> bool option" where
  "IsClockwise lr = map_option Not (IsCounterClockwise lr)"

definition Area :: "LinearRing \<Rightarrow> float64 option" where
  "Area lr = map_option abs (signedArea lr)"

text \<open>
  \<^verbatim>\<open>EnsureOrientation\<close> changes the ring in place; the model returns the new ring
  (\<^verbatim>\<open>slices.Reverse\<close> is \<open>rev\<close>).
\<close>

definition EnsureOrientation :: "bool \<Rightarrow> LinearRing \<Rightarrow> LinearRing option" where
  "EnsureOrientation shouldBeCounterClockwise lr =
     (case IsCounterClockwise lr of
        None \<Rightarrow> None
      | Some isCounterClockwise \<Rightarrow>
          if shouldBeCounterClockwise = isCounterClockwise then Some lr
          else Some (rev lr))"

definition NewLinearRing :: "Vertices \<Rightarrow> error + LinearRing" where
  "NewLinearRing vertices =
     (if \<not> HasValidSize vertices then Inl ErrLinearRingSize
      else if \<not> IsClosed vertices then Inl ErrLinearRingClosed
      else Inr vertices)"

section \<open>Polygons and multi-polygons (polygon.go, multi\_polygon.go)\<close>

text \<open>
  \<^verbatim>\<open>ensureOrientation\<close> on rings as values: each ring owns its vertex array, as the
  data model has it (a geometry owns all its coordinate data) and as the decode path
  guarantees by making every ring afresh. What the constructors do to rings that share a
  backing array is the subject of the section on in-place reversal below.

  \<open>ensureOrientation_holes\<close> is the loop \<^verbatim>\<open>for i := 1; i < len(rings); i++\<close> of
  \<^verbatim>\<open>ensureOrientation\<close>.
\<close>

fun ensureOrientation_holes :: "LinearRings \<Rightarrow> LinearRings option" where
  "ensureOrientation_holes [] = Some []"
| "ensureOrientation_holes (r # rs) =
     (case EnsureOrientation False r of
        None \<Rightarrow> None
      | Some r' \<Rightarrow>
          (case ensureOrientation_holes rs of
             None \<Rightarrow> None
           | Some rs' \<Rightarrow> Some (r' # rs')))"

fun ensureOrientation :: "LinearRings \<Rightarrow> LinearRings option" where
  "ensureOrientation [] = Some []"
| "ensureOrientation (r # rs) =
     (case EnsureOrientation True r of
        None \<Rightarrow> None
      | Some r' \<Rightarrow>
          (case ensureOrientation_holes rs of
             None \<Rightarrow> None
           | Some rs' \<Rightarrow> Some (r' # rs')))"


text \<open>
  The geometry variants. Each Go struct is its payload and its \<^verbatim>\<open>SerializeBBox\<close>
  flag; \<^verbatim>\<open>GeometryCollection\<close> has the list of its children and no flag. A nil child
  of a collection is not modelled.
\<close>

datatype Geometry =
    Point Coordinates bool
  | LineString Vertices bool
  | MultiPoint Vertices bool
  | MultiLineString Segments bool
  | Polygon LinearRings bool
  | MultiPolygon "LinearRings list" bool
  | GeometryCollection "Geometry list"


definition OuterRing :: "LinearRings \<Rightarrow> LinearRing option" where
  "OuterRing rings = (if length rings = 0 then None else Some (rings ! 0))"

definition InnerRings :: "LinearRings \<Rightarrow> LinearRings option" where
  "InnerRings rings = (if length rings = 0 then None else Some (drop 1 rings))"

section \<open>Line strings (line\_string.go)\<close>

definition LineStringMinimumSize :: nat where "LineStringMinimumSize = 2"


section \<open>Untyped document values and the coordinate builders\<close>

text \<open>
  A value of Go's \<^verbatim>\<open>interface{}\<close> as the builders see it: what the JSON codec
  produces for an untyped field (nil, bool, float64, string, \<^verbatim>\<open>[]interface{}\<close>,
  \<^verbatim>\<open>map[string]interface{}\<close>), and \<^verbatim>\<open>int\<close>, which \<^verbatim>\<open>buildCoordinates\<close> also
  accepts although the codec never produces it. The same tree stands for a JSON document.
\<close>

datatype any =
    ANil
  | ABool bool
  | AFloat64 float64
  | AInt int
  | AString string
  | ASlice "any list"
  | AMap "(string \<times> any) list"

text \<open>
  The loop \<^verbatim>\<open>for i, x := range xs { y, err := f(x); if err != nil { return err }; out[i] = y }\<close>
  that every builder runs over its raw slice: the first error ends it.
\<close>

fun forEach :: "('a \<Rightarrow> error + 'b) \<Rightarrow> 'a list \<Rightarrow> error + 'b list" where
  "forEach f [] = Inr []"
| "forEach f (x # xs) =
     (case f x of
        Inl err \<Rightarrow> Inl err
      | Inr y \<Rightarrow>
          (case forEach f xs of
             Inl err \<Rightarrow> Inl err
           | Inr ys \<Rightarrow> Inr (y # ys)))"

text \<open>
  The type switch inside \<^verbatim>\<open>buildCoordinates\<close>. The conversion \<^verbatim>\<open>float64(c)\<close> of
  an \<^verbatim>\<open>int\<close> is taken as exact.
\<close>

fun toFloat64 :: "any \<Rightarrow> error + float64" where
  "toFloat64 (AFloat64 c) = Inr c"
| "toFloat64 (AInt c) = Inr (real_of_int c)"
| "toFloat64 s = Inl ErrInvalidCoordinates"

fun buildCoordinates :: "any \<Rightarrow> error + Coordinates" where
  "buildCoordinates (ASlice rawSlice) =
     (if length rawSlice \<noteq> coordsMinLen \<and> length rawSlice \<noteq> coordsMaxLen
        then Inl ErrCoordinatesSize
      else case forEach toFloat64 rawSlice of
        Inl err \<Rightarrow> Inl err
      | Inr slice \<Rightarrow> NewCoordinates slice)"
| "buildCoordinates v = Inl ErrInvalidCoordinates"

text \<open>
  The builders of the variants. In the source each one fills the fields of its receiver
  and returns an error; here each returns the payload it stores.
\<close>

fun Point_buildCoordinates :: "any \<Rightarrow> error + Coordinates" where
  "Point_buildCoordinates (ASlice rawSlice) = buildCoordinates (ASlice rawSlice)"
| "Point_buildCoordinates v = Inl ErrInvalidCoordinates"

fun LineString_buildCoordinates :: "any \<Rightarrow> error + Vertices" where
  "LineString_buildCoordinates (ASlice rawSlice) =
     (if length rawSlice < LineStringMinimumSize then Inl ErrLineStringTooShort
      else forEach Point_buildCoordinates rawSlice)"
| "LineString_buildCoordinates v = Inl ErrInvalidCoordinates"

fun MultiPoint_buildCoordinates :: "any \<Rightarrow> error + Vertices" where
  "MultiPoint_buildCoordinates (ASlice rawSlice) = forEach Point_buildCoordinates rawSlice"
| "MultiPoint_buildCoordinates v = Inl ErrInvalidCoordinates"

fun MultiLineString_buildCoordinates :: "any \<Rightarrow> error + Segments" where
  "MultiLineString_buildCoordinates (ASlice rawSlice) =
     (if length rawSlice = 0 then Inl ErrMultiLineStringTooShort
      else forEach LineString_buildCoordinates rawSlice)"
| "MultiLineString_buildCoordinates v = Inl ErrInvalidCoordinates"

text \<open>One round of the outer loop of \<^verbatim>\<open>Polygon.buildCoordinates\<close>: one raw ring.\<close>

fun buildRing :: "any \<Rightarrow> error + LinearRing" where
  "buildRing (ASlice rawRing) =
     (case forEach buildCoordinates rawRing of
        Inl err \<Rightarrow> Inl err
      | Inr ring \<Rightarrow> NewLinearRing ring)"
| "buildRing r = Inl ErrInvalidCoordinates"

fun Polygon_buildCoordinates :: "any \<Rightarrow> error + LinearRings" where
  "Polygon_buildCoordinates (ASlice rawSlice) =
     (case forEach buildRing rawSlice of
        Inl err \<Rightarrow> Inl err
      | Inr rings \<Rightarrow>
          if length rings = 0 then Inl ErrPolygonLinearRingCount
          else (case ensureOrientation rings of
                  None \<Rightarrow> Inl PanicIndexOutOfRange
                | Some rings' \<Rightarrow> Inr rings'))"
| "Polygon_buildCoordinates v = Inl ErrInvalidCoordinates"

fun MultiPolygon_buildCoordinates :: "any \<Rightarrow> error + LinearRings list" where
  "MultiPolygon_buildCoordinates (ASlice rawSlice) = forEach Polygon_buildCoordinates rawSlice"
| "MultiPolygon_buildCoordinates v = Inl ErrInvalidCoordinates"

section \<open>In-place reversal: the constructors on shared backing arrays\<close>










section \<open>Bounding boxes (the two versions of bbox)\<close>

text \<open>
  The local variables of \<^verbatim>\<open>bbox\<close>. The counter is a Go \<^verbatim>\<open>int\<close> that counts vertices
  of a slice, so it never overflows; it is a natural number here.
\<close>

record bbox_vars =
  minLng :: float64
  minLat :: float64
  maxLng :: float64
  maxLat :: float64
  minAlt :: float64
  maxAlt :: float64
  counter :: nat

definition bbox_init :: bbox_vars where
  "bbox_init =
     \<lparr>minLng = LongitudeMax, minLat = LatitudeMax, maxLng = LongitudeMin, maxLat = LatitudeMin,
      minAlt = MaxFloat64, maxAlt = - MaxFloat64, counter = 0\<rparr>"

subsection \<open>The version with explicit comparisons and the counter counter3D\<close>

text \<open>
  One round of the first loop. \<^verbatim>\<open>v.Longitude()\<close> and \<^verbatim>\<open>v.Latitude()\<close> read entries
  0 and 1 of the vertex, so the round panics exactly when the vertex has fewer than two
  entries; \<^verbatim>\<open>v.Altitude()\<close> is read only when the vertex has three.
\<close>

definition bbox1_step :: "Coordinates \<Rightarrow> bbox_vars \<Rightarrow> bbox_vars option" where
  "bbox1_step v s =
     (if length v < 2 then None
      else
        let s = (if v ! idxCoordsLng < minLng s then s\<lparr>minLng := v ! idxCoordsLng\<rparr> else s);
            s = (if v ! idxCoordsLat < minLat s then s\<lparr>minLat := v ! idxCoordsLat\<rparr> else s);
            s = (if v ! idxCoordsLng > maxLng s then s\<lparr>maxLng := v ! idxCoordsLng\<rparr> else s);
            s = (if v ! idxCoordsLat > maxLat s then s\<lparr>maxLat := v ! idxCoordsLat\<rparr> else s)
        in Some
          (if HasAltitude v then
             let s = s\<lparr>counter := counter s + 1\<rparr>;
                 s = (if v ! idxCoordsAlt < minAlt s then s\<lparr>minAlt := v ! idxCoordsAlt\<rparr> else s);
                 s = (if v ! idxCoordsAlt > maxAlt s then s\<lparr>maxAlt := v ! idxCoordsAlt\<rparr> else s)
             in s
           else s))"

fun bbox1_loop :: "Vertices \<Rightarrow> bbox_vars \<Rightarrow> bbox_vars option" where
  "bbox1_loop [] s = Some s"
| "bbox1_loop (v # vertices) s =
     (case bbox1_step v s of None \<Rightarrow> None | Some s' \<Rightarrow> bbox1_loop vertices s')"

text \<open>One round of the second loop: a vertex without altitude pulls 0 into the range.\<close>

definition bbox1_adjust_step :: "Coordinates \<Rightarrow> bbox_vars \<Rightarrow> bbox_vars" where
  "bbox1_adjust_step v s =
     (if \<not> HasAltitude v then
        let s = (if 0 < minAlt s then s\<lparr>minAlt := 0\<rparr> else s);
            s = (if 0 > maxAlt s then s\<lparr>maxAlt := 0\<rparr> else s)
        in s
      else s)"

fun bbox1_adjust :: "Vertices \<Rightarrow> bbox_vars \<Rightarrow> bbox_vars" where
  "bbox1_adjust [] s = s"
| "bbox1_adjust (v # vertices) s = bbox1_adjust vertices (bbox1_adjust_step v s)"

definition bbox1 :: "Vertices \<Rightarrow> BoundingBox option" where
  "bbox1 vertices =
     (let s0 = bbox_init in
      if length vertices = 0 then Some []
      else case bbox1_loop vertices s0 of
        None \<Rightarrow> None
      | Some s \<Rightarrow>
          let s = (if counter s \<noteq> length vertices then bbox1_adjust vertices s else s)
          in if counter s > 0
             then Some [minLng s, minLat s, minAlt s, maxLng s, maxLat s, maxAlt s]
             else Some [minLng s, minLat s, maxLng s, maxLat s])"

subsection \<open>The version with updateRange and the counter altitudeCount\<close>

text \<open>\<^verbatim>\<open>updateRange\<close> writes through its two pointers; the model returns the pair.\<close>

definition updateRange :: "float64 \<Rightarrow> float64 \<times> float64 \<Rightarrow> float64 \<times> float64" where
  "updateRange val mm =
     (let (minVal, maxVal) = mm;
          minVal = (if val < minVal then val else minVal);
          maxVal = (if val > maxVal then val else maxVal)
      in (minVal, maxVal))"

definition bbox_step :: "Coordinates \<Rightarrow> bbox_vars \<Rightarrow> bbox_vars option" where
  "bbox_step v s =
     (if length v < 2 then None
      else
        let (lo, hi) = updateRange (v ! idxCoordsLng) (minLng s, maxLng s);
            s = s\<lparr>minLng := lo, maxLng := hi\<rparr>;
            (lo, hi) = updateRange (v ! idxCoordsLat) (minLat s, maxLat s);
            s = s\<lparr>minLat := lo, maxLat := hi\<rparr>
        in Some
          (if HasAltitude v then
             let s = s\<lparr>counter := counter s + 1\<rparr>;
                 (lo, hi) = updateRange (v ! idxCoordsAlt) (minAlt s, maxAlt s)
             in s\<lparr>minAlt := lo, maxAlt := hi\<rparr>
           else s))"

fun bbox_loop :: "Vertices \<Rightarrow> bbox_vars \<Rightarrow> bbox_vars option" where
  "bbox_loop [] s = Some s"
| "bbox_loop (v # vertices) s =
     (case bbox_step v s of None \<Rightarrow> None | Some s' \<Rightarrow> bbox_loop vertices s')"

definition bbox_adjust_step :: "Coordinates \<Rightarrow> bbox_vars \<Rightarrow> bbox_vars" where
  "bbox_adjust_step v s =
     (if \<not> HasAltitude v then
        let (lo, hi) = updateRange 0 (minAlt s, maxAlt s)
        in s\<lparr>minAlt := lo, maxAlt := hi\<rparr>
      else s)"

fun bbox_adjust :: "Vertices \<Rightarrow> bbox_vars \<Rightarrow> bbox_vars" where
  "bbox_adjust [] s = s"
| "bbox_adjust (v # vertices) s = bbox_adjust vertices (bbox_adjust_step v s)"

definition bbox :: "Vertices \<Rightarrow> BoundingBox option" where
  "bbox vertices =
     (if length vertices = 0 then Some []
      else case bbox_loop vertices bbox_init of
        None \<Rightarrow> None
      | Some s \<Rightarrow>
          let s = (if counter s \<noteq> length vertices then bbox_adjust vertices s else s)
          in if counter s > 0
             then Some [minLng s, minLat s, minAlt s, maxLng s, maxLat s, maxAlt s]
             else Some [minLng s, minLat s, maxLng s, maxLat s])"

section \<open>The geometry interface (methods of every variant)\<close>

definition TypeEmptyGeometry :: string where "TypeEmptyGeometry = ''Object''"
definition TypePoint :: string where "TypePoint = ''Point''"
definition TypeMultiPoint :: string where "TypeMultiPoint = ''MultiPoint''"
definition TypeLineString :: string where "TypeLineString = ''LineString''"
definition TypeMultiLineString :: string where "TypeMultiLineString = ''MultiLineString''"
definition TypePolygon :: string where "TypePolygon = ''Polygon''"
definition TypeMultiPolygon :: string where "TypeMultiPolygon = ''MultiPolygon''"
definition TypeGeometryCollection :: string where
  "TypeGeometryCollection = ''GeometryCollection''"




text \<open>
  \<^verbatim>\<open>buildCoordinates\<close> as a method of the interface: the receiver decides which
  builder runs, the builder fills the payload and leaves the flag of the receiver.
\<close>

fun sum_map_Inr :: "('a \<Rightarrow> 'b) \<Rightarrow> error + 'a \<Rightarrow> error + 'b" where
  "sum_map_Inr f (Inl err) = Inl err"
| "sum_map_Inr f (Inr x) = Inr (f x)"

fun Geometry_buildCoordinates :: "Geometry \<Rightarrow> any \<Rightarrow> error + Geometry" where
  "Geometry_buildCoordinates (Point coords b) v =
     sum_map_Inr (\<lambda>coords'. Point coords' b) (Point_buildCoordinates v)"
| "Geometry_buildCoordinates (LineString vertices b) v =
     sum_map_Inr (\<lambda>vertices'. LineString vertices' b) (LineString_buildCoordinates v)"
| "Geometry_buildCoordinates (MultiPoint vertices b) v =
     sum_map_Inr (\<lambda>vertices'. MultiPoint vertices' b) (MultiPoint_buildCoordinates v)"
| "Geometry_buildCoordinates (MultiLineString segments b) v =
     sum_map_Inr (\<lambda>segments'. MultiLineString segments' b) (MultiLineString_buildCoordinates v)"
| "Geometry_buildCoordinates (Polygon rings b) v =
     sum_map_Inr (\<lambda>rings'. Polygon rings' b) (Polygon_buildCoordinates v)"
| "Geometry_buildCoordinates (MultiPolygon rings b) v =
     sum_map_Inr (\<lambda>rings'. MultiPolygon rings' b) (MultiPolygon_buildCoordinates v)"
| "Geometry_buildCoordinates (GeometryCollection geometries) v =
     Inl ErrGeometryCollectionBuildCoordinates"

section \<open>The JSON codec, as far as the package relies on it\<close>

text \<open>
  \<^verbatim>\<open>encoding/json\<close> is not part of the package. A JSON document is the tree \<open>any\<close>
  (a number is \<open>AFloat64\<close>; \<open>AInt\<close> does not occur in a document), and the text between
  \<^verbatim>\<open>json.Marshal\<close> and \<^verbatim>\<open>json.Unmarshal\<close> is left out: a finite \<^verbatim>\<open>float64\<close> is
  printed and read back as the same value. What follows is how the codec fills the
  fields of the package's input structs from a document: a missing key and \<^verbatim>\<open>null\<close>
  leave the zero value, a value of the wrong JSON type is an error, and an element
  whose type has its own \<^verbatim>\<open>UnmarshalJSON\<close> is decoded by that method, whose error
  ends the decoding. Keys are matched exactly and the first occurrence of a key counts;
  when several fields are in error, which error is reported is not modelled beyond the
  order written here. A nil slice, which the codec prints as \<^verbatim>\<open>null\<close>, is not told
  apart from the empty slice, which it prints as \<open>[]\<close>.
\<close>

fun lookup :: "(string \<times> any) list \<Rightarrow> string \<Rightarrow> any" where
  "lookup [] key = ANil"
| "lookup ((k, v) # kvs) key = (if k = key then v else lookup kvs key)"

fun json_string :: "any \<Rightarrow> error + string" where
  "json_string ANil = Inr []"
| "json_string (AString s) = Inr s"
| "json_string v = Inl ErrJSONUnmarshal"

fun json_float64 :: "any \<Rightarrow> error + float64" where
  "json_float64 (AFloat64 x) = Inr x"
| "json_float64 v = Inl ErrJSONUnmarshal"

fun json_slice :: "(any \<Rightarrow> error + 'a) \<Rightarrow> any \<Rightarrow> error + 'a list" where
  "json_slice f ANil = Inr []"
| "json_slice f (ASlice docs) = forEach f docs"
| "json_slice f v = Inl ErrJSONUnmarshal"

text \<open>
  The struct \<^verbatim>\<open>geometryJSONInput\<close>. Every element of \<^verbatim>\<open>Geometries\<close> is a
  \<^verbatim>\<open>GeometryObject\<close> that its own \<^verbatim>\<open>UnmarshalJSON\<close> has filled, so it holds a
  geometry; the field is the list of those geometries.
\<close>

record geometryJSONInput =
  gType :: string
  gCoordinates :: any
  gGeometries :: "Geometry list"
  gBBox :: BoundingBox

text \<open>
  \<^verbatim>\<open>json.Unmarshal(bytes, &geometry)\<close> for a \<^verbatim>\<open>geometryJSONInput\<close>; \<open>child\<close> is the
  decoder of one element of \<^verbatim>\<open>Geometries\<close>.
\<close>

fun Unmarshal_geometryJSONInput ::
  "(any \<Rightarrow> error + Geometry) \<Rightarrow> any \<Rightarrow> error + geometryJSONInput" where
  "Unmarshal_geometryJSONInput child ANil =
     Inr \<lparr>gType = [], gCoordinates = ANil, gGeometries = [], gBBox = []\<rparr>"
| "Unmarshal_geometryJSONInput child (AMap kvs) =
     (case json_string (lookup kvs ''type'') of
        Inl err \<Rightarrow> Inl err
      | Inr t \<Rightarrow>
          (case json_slice child (lookup kvs ''geometries'') of
             Inl err \<Rightarrow> Inl err
           | Inr gs \<Rightarrow>
               (case json_slice json_float64 (lookup kvs ''bbox'') of
                  Inl err \<Rightarrow> Inl err
                | Inr b \<Rightarrow>
                    Inr \<lparr>gType = t, gCoordinates = lookup kvs ''coordinates'',
                         gGeometries = gs, gBBox = b\<rparr>)))"
| "Unmarshal_geometryJSONInput child doc = Inl ErrJSONUnmarshal"







section \<open>Encoding and decoding geometries\<close>

lemma forEach_cong [fundef_cong]:
  "xs = ys \<Longrightarrow> (\<And>x. x \<in> set ys \<Longrightarrow> f x = g x) \<Longrightarrow> forEach f xs = forEach g ys"
  by (induction ys arbitrary: xs) (auto split: sum.splits)



text \<open>
  A \<^verbatim>\<open>GeometryObject\<close> holds a geometry or nil. \<^verbatim>\<open>GeometryObject.MarshalJSON\<close>:
\<close>

type_synonym GeometryObject = "Geometry option"


text \<open>
  \<^verbatim>\<open>GeometryObject.UnmarshalJSON\<close> after the codec has filled \<^verbatim>\<open>geometryJSONInput\<close>:
  the switch on the type tag, in the order of the source, and the call of the builder
  of the fresh variant.
\<close>

definition GeometryObject_dispatch :: "geometryJSONInput \<Rightarrow> error + Geometry" where
  "GeometryObject_dispatch geometry =
     (if gType geometry = TypePoint
        then Geometry_buildCoordinates (Point [] False) (gCoordinates geometry)
      else if gType geometry = TypeLineString
        then Geometry_buildCoordinates (LineString [] False) (gCoordinates geometry)
      else if gType geometry = TypeMultiPoint
        then Geometry_buildCoordinates (MultiPoint [] False) (gCoordinates geometry)
      else if gType geometry = TypeMultiLineString
        then Geometry_buildCoordinates (MultiLineString [] False) (gCoordinates geometry)
      else if gType geometry = TypePolygon
        then Geometry_buildCoordinates (Polygon [] False) (gCoordinates geometry)
      else if gType geometry = TypeMultiPolygon
        then Geometry_buildCoordinates (MultiPolygon [] False) (gCoordinates geometry)
      else if gType geometry = TypeGeometryCollection
        then Inr (GeometryCollection (gGeometries geometry))
      else Inl ErrInvalidTypeField)"

lemma size_lookup: "size (lookup kvs key) \<le> size_list (size_prod (\<lambda>_. 0) size) kvs"
  by (induction kvs) auto

lemma size_elem: "x \<in> set docs \<Longrightarrow> size x < size (ASlice docs)"
  by (induction docs) auto

lemma json_slice_cong:
  "(\<And>x. size x < size v \<Longrightarrow> f x = g x) \<Longrightarrow> json_slice f v = json_slice g v"
  by (cases v) (auto intro!: forEach_cong dest: size_elem)

lemma Unmarshal_geometryJSONInput_cong [fundef_cong]:
  assumes "doc = doc'" "\<And>x. size x < size doc' \<Longrightarrow> f x = g x"
  shows "Unmarshal_geometryJSONInput f doc = Unmarshal_geometryJSONInput g doc'"
proof (cases doc')
  case (AMap kvs)
  have "size (lookup kvs ''geometries'') < size doc'"
    using size_lookup [of kvs "''geometries''"] AMap by simp
  then have "json_slice f (lookup kvs ''geometries'') = json_slice g (lookup kvs ''geometries'')"
    using assms(2) by (intro json_slice_cong) auto
  with AMap assms(1) show ?thesis by (simp split: sum.splits)
qed (use assms in simp_all)

text \<open>
  \<^verbatim>\<open>GeometryObject.UnmarshalJSON\<close> on a document. The codec decodes every element of
  \<^verbatim>\<open>geometries\<close> by this same method before the switch runs.
\<close>

function GeometryObject_UnmarshalJSON :: "any \<Rightarrow> error + Geometry" where
  "GeometryObject_UnmarshalJSON doc =
     (case Unmarshal_geometryJSONInput GeometryObject_UnmarshalJSON doc of
        Inl err \<Rightarrow> Inl err
      | Inr geometry \<Rightarrow> GeometryObject_dispatch geometry)"
  by pat_completeness auto
termination
  by (relation "measure size") auto

declare GeometryObject_UnmarshalJSON.simps [simp del]

section \<open>Features and the top-level object (feature.go, feature\_collection.go, object.go)\<close>

text \<open>
  \<^verbatim>\<open>Properties\<close> is \<^verbatim>\<open>map[string]interface{}\<close>, kept as the key-value list of the
  document; \<^verbatim>\<open>ID\<close> has two pointer fields, of which a decoded ID sets one.
\<close>

type_synonym Properties = "(string \<times> any) list"

record ID =
  id_s :: "string option"
  id_n :: "float64 option"


text \<open>\<^verbatim>\<open>Feature.Geometry\<close> is an interface value: a geometry or nil.\<close>

record Feature =
  f_Geometry :: "Geometry option"
  f_Properties :: Properties
  f_ID :: "ID option"
  f_SerializeBBox :: bool






text \<open>
  The struct \<^verbatim>\<open>featuresJSONInput\<close>. \<^verbatim>\<open>Geometry\<close> is a pointer to a
  \<^verbatim>\<open>GeometryObject\<close>: \<open>None\<close> is the nil pointer, which the codec leaves when the
  key \<^verbatim>\<open>geometry\<close> is missing or \<^verbatim>\<open>null\<close>.
\<close>

record featuresJSONInput =
  i_Type :: string
  i_Geometry :: "GeometryObject option"
  i_Properties :: Properties
  i_ID :: "ID option"
  i_Features :: "Feature list"





text \<open>How the codec fills the remaining fields of \<^verbatim>\<open>featuresJSONInput\<close>.\<close>

fun json_geometry_pointer :: "any \<Rightarrow> error + GeometryObject option" where
  "json_geometry_pointer ANil = Inr None"
| "json_geometry_pointer doc =
     (case GeometryObject_UnmarshalJSON doc of
        Inl err \<Rightarrow> Inl err
      | Inr g \<Rightarrow> Inr (Some (Some g)))"

text \<open>\<^verbatim>\<open>Properties.UnmarshalJSON\<close>: a JSON object or \<^verbatim>\<open>null\<close>.\<close>

fun Properties_UnmarshalJSON :: "any \<Rightarrow> error + Properties" where
  "Properties_UnmarshalJSON ANil = Inr []"
| "Properties_UnmarshalJSON (AMap kvs) = Inr kvs"
| "Properties_UnmarshalJSON v = Inl ErrJSONUnmarshal"

text \<open>\<^verbatim>\<open>ID.UnmarshalJSON\<close>, behind a pointer field that \<^verbatim>\<open>null\<close> leaves nil.\<close>

fun json_ID_pointer :: "any \<Rightarrow> error + ID option" where
  "json_ID_pointer ANil = Inr None"
| "json_ID_pointer (AString v) = Inr (Some \<lparr>id_s = Some v, id_n = None\<rparr>)"
| "json_ID_pointer (AFloat64 v) = Inr (Some \<lparr>id_s = None, id_n = Some v\<rparr>)"
| "json_ID_pointer v = Inl ErrInvalidID"

text \<open>
  \<^verbatim>\<open>json.Unmarshal(bytes, &feature)\<close> for a \<^verbatim>\<open>featuresJSONInput\<close>; \<open>elem\<close> decodes
  one element of \<^verbatim>\<open>features\<close>.
\<close>

fun Unmarshal_featuresJSONInput ::
  "(any \<Rightarrow> error + Feature) \<Rightarrow> any \<Rightarrow> error + featuresJSONInput" where
  "Unmarshal_featuresJSONInput elem ANil =
     Inr \<lparr>i_Type = [], i_Geometry = None, i_Properties = [], i_ID = None, i_Features = []\<rparr>"
| "Unmarshal_featuresJSONInput elem (AMap kvs) =
     (case json_string (lookup kvs ''type'') of
        Inl err \<Rightarrow> Inl err
      | Inr t \<Rightarrow>
          (case json_geometry_pointer (lookup kvs ''geometry'') of
             Inl err \<Rightarrow> Inl err
           | Inr g \<Rightarrow>
               (case Properties_UnmarshalJSON (lookup kvs ''properties'') of
                  Inl err \<Rightarrow> Inl err
                | Inr p \<Rightarrow>
                    (case json_ID_pointer (lookup kvs ''id'') of
                       Inl err \<Rightarrow> Inl err
                     | Inr i \<Rightarrow>
                         (case json_slice elem (lookup kvs ''features'') of
                            Inl err \<Rightarrow> Inl err
                          | Inr fs \<Rightarrow>
                              Inr \<lparr>i_Type = t, i_Geometry = g, i_Properties = p, i_ID = i,
                                   i_Features = fs\<rparr>)))))"
| "Unmarshal_featuresJSONInput elem doc = Inl ErrJSONUnmarshal"

lemma Unmarshal_featuresJSONInput_cong [fundef_cong]:
  assumes "doc = doc'" "\<And>x. size x < size doc' \<Longrightarrow> f x = g x"
  shows "Unmarshal_featuresJSONInput f doc = Unmarshal_featuresJSONInput g doc'"
proof (cases doc')
  case (AMap kvs)
  have "size (lookup kvs ''features'') < size doc'"
    using size_lookup [of kvs "''features''"] AMap by simp
  then have "json_slice f (lookup kvs ''features'') = json_slice g (lookup kvs ''features'')"
    using assms(2) by (intro json_slice_cong) auto
  with AMap assms(1) show ?thesis by (simp split: sum.splits)
qed (use assms in simp_all)




section \<open>Functions used to state the properties\<close>

text \<open>
  The shoelace sum \<open>\<Sum> (x\<^sub>i * y\<^sub>i\<^sub>+\<^sub>1 - x\<^sub>i\<^sub>+\<^sub>1 * y\<^sub>i)\<close> over consecutive vertices, as a total
  function: what \<^verbatim>\<open>signedArea\<close> adds up when no read panics.
\<close>

fun shoelace :: "LinearRing \<Rightarrow> float64" where
  "shoelace (p # q # rest) = (p ! 0 * q ! 1 - q ! 0 * p ! 1) + shoelace (q # rest)"
| "shoelace ring = 0"

text \<open>Every vertex has its longitude and latitude entries.\<close>

definition wf_ring :: "LinearRing \<Rightarrow> bool" where
  "wf_ring ring = list_all (\<lambda>p. 2 \<le> length p) ring"

text \<open>The rings on which \<^verbatim>\<open>signedArea\<close> panics: the loop runs and meets a short vertex.\<close>

definition panics :: "LinearRing \<Rightarrow> bool" where
  "panics ring = (2 \<le> length ring \<and> \<not> wf_ring ring)"


text \<open>
  The invariant of the spec's Coordinate: two or three entries, longitude in [-180,180],
  latitude in [-90,90]. This is what \<^verbatim>\<open>NewCoordinates\<close> accepts.
\<close>

definition valid_Coordinates :: "Coordinates \<Rightarrow> bool" where
  "valid_Coordinates c =
     ((length c = 2 \<or> length c = 3) \<and> -180 \<le> c ! 0 \<and> c ! 0 \<le> 180 \<and> -90 \<le> c ! 1 \<and> c ! 1 \<le> 90)"













section \<open>Facts about the constants\<close>

lemmas geo_consts =
  LongitudeMin_def LongitudeMax_def LatitudeMin_def LatitudeMax_def
  idxCoordsLng_def idxCoordsLat_def idxCoordsAlt_def coordsMinLen_def coordsMaxLen_def
  LinearRingMinimumSize_def LineStringMinimumSize_def

section \<open>Properties of NewCoordinates\<close>

lemma list2_or_3_cases:
  assumes "length (v::'a list) = 2 \<or> length v = 3"
  shows "(\<exists>a b. v = [a, b]) \<or> (\<exists>a b c. v = [a, b, c])"
proof -
  from assms show ?thesis
    by (cases v; cases "tl v"; cases "tl (tl v)"; cases "tl (tl (tl v))") auto
qed

lemma NewCoordinates_eq:
  "NewCoordinates v =
     (if length v \<noteq> 2 \<and> length v \<noteq> 3 then Inl ErrCoordinatesSize
      else if v ! 0 < -180 \<or> 180 < v ! 0
        then Inl (Errorf ''invalid coordinates: %w'' ErrLongitudeRange)
      else if v ! 1 < -90 \<or> 90 < v ! 1
        then Inl (Errorf ''invalid coordinates: %w'' ErrLatitudeRange)
      else Inr v)"
proof (cases "length v = 2 \<or> length v = 3")
  case False
  then show ?thesis by (simp add: NewCoordinates_def geo_consts)
next
  case True
  then consider a b where "v = [a, b]" | a b c where "v = [a, b, c]"
    using list2_or_3_cases by blast
  then show ?thesis
    by cases (auto simp: NewCoordinates_def validateCoordinates_def geo_consts Let_def)
qed



section \<open>The shoelace sum and the orientation tests\<close>

lemma signedArea_loop_wf:
  "wf_ring ring \<Longrightarrow> signedArea_loop ring v = Some (v + shoelace ring)"
  by (induction ring v rule: signedArea_loop.induct)
     (auto simp: wf_ring_def geo_consts Let_def)

lemma signedArea_wf: "wf_ring ring \<Longrightarrow> signedArea ring = Some (shoelace ring * 0.5)"
  by (simp add: signedArea_def signedArea_loop_wf)



lemma wf_ring_rev: "wf_ring (rev ring) = wf_ring ring"
  by (simp add: wf_ring_def)


lemma signedArea_loop_eq:
  "signedArea_loop ring v = (if panics ring then None else Some (v + shoelace ring))"
proof (induction ring v rule: signedArea_loop.induct)
  case (1 p q rest v)
  then show ?case
    by (cases rest) (auto simp: wf_ring_def Let_def panics_def geo_consts)
qed (simp_all add: panics_def)

lemma signedArea_eq:
  "signedArea ring = (if panics ring then None else Some (shoelace ring * 0.5))"
  by (simp add: signedArea_def signedArea_loop_eq)


lemma IsCounterClockwise_eq:
  "IsCounterClockwise ring = (if panics ring then None else Some (0 < shoelace ring))"
  by (simp add: IsCounterClockwise_def signedArea_eq)


text \<open>
  C9. \<^verbatim>\<open>IsClockwise\<close> is the negation of \<^verbatim>\<open>IsCounterClockwise\<close> on every ring; on a
  ring whose vertices all have two entries both return, and exactly one of them holds.
  A ring whose signed area is zero is clockwise and not counterclockwise; the bowtie
  \<open>[(0,0),(4,4),(4,0),(0,4),(0,0)]\<close> is such a ring.
\<close>

theorem IsClockwise_negation:
  "IsClockwise lr = map_option Not (IsCounterClockwise lr)
   \<and> (list_all (\<lambda>p. 2 \<le> length p) lr \<longrightarrow>
        (\<exists>b. IsCounterClockwise lr = Some b \<and> IsClockwise lr = Some (\<not> b)))
   \<and> (signedArea lr = Some 0 \<longrightarrow>
        IsClockwise lr = Some True \<and> IsCounterClockwise lr = Some False)
   \<and> signedArea [[0, 0], [4, 4], [4, 0], [0, 4], [0, 0]] = Some 0
   \<and> IsClockwise [[0, 0], [4, 4], [4, 0], [0, 4], [0, 0]] = Some True
   \<and> IsCounterClockwise [[0, 0], [4, 4], [4, 0], [0, 4], [0, 0]] = Some False"
proof -
  have a: "IsClockwise lr = map_option Not (IsCounterClockwise lr)"
    by (simp add: IsClockwise_def)
  have b: "list_all (\<lambda>p. 2 \<le> length p) lr \<longrightarrow>
        (\<exists>b. IsCounterClockwise lr = Some b \<and> IsClockwise lr = Some (\<not> b))"
    by (simp add: IsClockwise_def IsCounterClockwise_eq panics_def wf_ring_def)
  have c: "signedArea lr = Some 0 \<longrightarrow>
        IsClockwise lr = Some True \<and> IsCounterClockwise lr = Some False"
    by (simp add: IsClockwise_def IsCounterClockwise_def)
  have d: "signedArea [[0, 0], [4, 4], [4, 0], [0, 4], [0, 0]] = Some 0"
    by (simp add: signedArea_def geo_consts)
  have e: "IsClockwise [[0, 0], [4, 4], [4, 0], [0, 4], [0, 0]] = Some True
   \<and> IsCounterClockwise [[0, 0], [4, 4], [4, 0], [0, 4], [0, 0]] = Some False"
    using d by (simp add: IsClockwise_def IsCounterClockwise_def)
  show ?thesis using a b c d e by blast
qed

theorem IsClockwise_negation_witness:
  "IsCounterClockwise [[0, 0], [2, 0], [2, 2], [0, 2], [0, 0]] = Some True
   \<and> IsClockwise [[0, 0], [2, 0], [2, 2], [0, 2], [0, 0]] = Some False
   \<and> signedArea [[0, 0], [1, 1], [2, 2], [0, 0]] = Some 0
   \<and> IsClockwise [[0, 0], [1, 1], [2, 2], [0, 0]] = Some True"
  using IsClockwise_negation [of "[[0, 0], [2, 0], [2, 2], [0, 2], [0, 0]]"]
    IsClockwise_negation [of "[[0, 0], [1, 1], [2, 2], [0, 0]]"]
  by (simp add: IsCounterClockwise_def signedArea_def geo_consts)

section \<open>EnsureOrientation applied twice\<close>





section \<open>Ring orientation of polygons and multi-polygons\<close>












subsection \<open>The in-place constructors against the value model\<close>






















section \<open>The two versions of bbox agree\<close>

lemma updateRange_eq: "updateRange val (lo, hi) = (min val lo, max val hi)"
  by (auto simp: updateRange_def Let_def min_def max_def)

lemma bbox_step_eq:
  "bbox_step v s =
     (if length v < 2 then None
      else Some \<lparr>minLng = min (v ! 0) (minLng s), minLat = min (v ! 1) (minLat s),
                 maxLng = max (v ! 0) (maxLng s), maxLat = max (v ! 1) (maxLat s),
                 minAlt = (if HasAltitude v then min (v ! 2) (minAlt s) else minAlt s),
                 maxAlt = (if HasAltitude v then max (v ! 2) (maxAlt s) else maxAlt s),
                 counter = (if HasAltitude v then counter s + 1 else counter s)\<rparr>)"
  by (simp add: bbox_step_def updateRange_eq Let_def geo_consts)

lemma bbox1_step_eq:
  "bbox1_step v s =
     (if length v < 2 then None
      else Some \<lparr>minLng = min (v ! 0) (minLng s), minLat = min (v ! 1) (minLat s),
                 maxLng = max (v ! 0) (maxLng s), maxLat = max (v ! 1) (maxLat s),
                 minAlt = (if HasAltitude v then min (v ! 2) (minAlt s) else minAlt s),
                 maxAlt = (if HasAltitude v then max (v ! 2) (maxAlt s) else maxAlt s),
                 counter = (if HasAltitude v then counter s + 1 else counter s)\<rparr>)"
  by (simp add: bbox1_step_def Let_def geo_consts min_def max_def)

lemma bbox1_step_bbox_step: "bbox1_step v s = bbox_step v s"
  by (simp only: bbox1_step_eq bbox_step_eq)

lemma bbox1_loop_bbox_loop: "bbox1_loop vertices s = bbox_loop vertices s"
  by (induction vertices arbitrary: s) (simp_all add: bbox1_step_bbox_step split: option.splits)

lemma bbox_adjust_step_eq:
  "bbox_adjust_step v s =
     (if HasAltitude v then s else s\<lparr>minAlt := min 0 (minAlt s), maxAlt := max 0 (maxAlt s)\<rparr>)"
  by (simp add: bbox_adjust_step_def updateRange_eq)

lemma bbox1_adjust_step_eq:
  "bbox1_adjust_step v s =
     (if HasAltitude v then s else s\<lparr>minAlt := min 0 (minAlt s), maxAlt := max 0 (maxAlt s)\<rparr>)"
  by (simp add: bbox1_adjust_step_def Let_def min_def max_def)

lemma bbox1_adjust_bbox_adjust: "bbox1_adjust vertices s = bbox_adjust vertices s"
  by (induction vertices arbitrary: s) (simp_all add: bbox1_adjust_step_eq bbox_adjust_step_eq)

text \<open>
  C8. The version of \<^verbatim>\<open>bbox\<close> with explicit comparisons and \<^verbatim>\<open>counter3D\<close> and the
  version with \<^verbatim>\<open>updateRange\<close> and \<^verbatim>\<open>altitudeCount\<close> return the same bounding box
  on every vertex list, and panic on the same lists.
\<close>

theorem bbox_versions_equal: "bbox1 vertices = bbox vertices"
  by (simp add: bbox1_def bbox_def bbox1_loop_bbox_loop bbox1_adjust_bbox_adjust Let_def
        split: option.splits)


section \<open>bbox computes the specified bounding box\<close>














section \<open>Constructors that take pre-built vertex data\<close>











section \<open>The decode dispatcher\<close>

lemmas type_tags =
  TypeEmptyGeometry_def TypePoint_def TypeMultiPoint_def TypeLineString_def
  TypeMultiLineString_def TypePolygon_def TypeMultiPolygon_def TypeGeometryCollection_def

text \<open>
  C6. For every parsed document whose type tag is none of the seven variant names (the
  empty tag of a document without one included) the dispatcher fails with the
  invalid-type-field error. For each of the six coordinate-bearing tags the result is what
  the builder of that variant makes of the \<^verbatim>\<open>coordinates\<close> field, held as that variant.
  The builder of a \<^verbatim>\<open>GeometryCollection\<close> always fails with its own error; the
  dispatcher does not call it: it stores the children, which the same dispatcher has
  decoded, one by one and in order, from the \<^verbatim>\<open>geometries\<close> field.
\<close>

theorem dispatch_spec:
  "(gType geometry \<notin> set [''Point'', ''MultiPoint'', ''LineString'', ''MultiLineString'',
                             ''Polygon'', ''MultiPolygon'', ''GeometryCollection''] \<longrightarrow>
      GeometryObject_dispatch geometry = Inl ErrInvalidTypeField)
   \<and> (gType geometry = ''Point'' \<longrightarrow> GeometryObject_dispatch geometry =
        sum_map_Inr (\<lambda>c. Point c False) (Point_buildCoordinates (gCoordinates geometry)))
   \<and> (gType geometry = ''LineString'' \<longrightarrow> GeometryObject_dispatch geometry =
        sum_map_Inr (\<lambda>c. LineString c False) (LineString_buildCoordinates (gCoordinates geometry)))
   \<and> (gType geometry = ''MultiPoint'' \<longrightarrow> GeometryObject_dispatch geometry =
        sum_map_Inr (\<lambda>c. MultiPoint c False) (MultiPoint_buildCoordinates (gCoordinates geometry)))
   \<and> (gType geometry = ''MultiLineString'' \<longrightarrow> GeometryObject_dispatch geometry =
        sum_map_Inr (\<lambda>c. MultiLineString c False)
          (MultiLineString_buildCoordinates (gCoordinates geometry)))
   \<and> (gType geometry = ''Polygon'' \<longrightarrow> GeometryObject_dispatch geometry =
        sum_map_Inr (\<lambda>c. Polygon c False) (Polygon_buildCoordinates (gCoordinates geometry)))
   \<and> (gType geometry = ''MultiPolygon'' \<longrightarrow> GeometryObject_dispatch geometry =
        sum_map_Inr (\<lambda>c. MultiPolygon c False) (MultiPolygon_buildCoordinates (gCoordinates geometry)))
   \<and> (gType geometry = ''GeometryCollection'' \<longrightarrow>
        GeometryObject_dispatch geometry = Inr (GeometryCollection (gGeometries geometry)))
   \<and> Geometry_buildCoordinates (GeometryCollection geometries) v
        = Inl ErrGeometryCollectionBuildCoordinates
   \<and> GeometryObject_UnmarshalJSON
        (AMap [(''type'', AString ''GeometryCollection''), (''geometries'', ASlice docs)])
        = sum_map_Inr GeometryCollection (forEach GeometryObject_UnmarshalJSON docs)
   \<and> GeometryObject_UnmarshalJSON (AMap [(''coordinates'', c)]) = Inl ErrInvalidTypeField"
proof -
  have gc: "GeometryObject_UnmarshalJSON
        (AMap [(''type'', AString ''GeometryCollection''), (''geometries'', ASlice docs)])
        = sum_map_Inr GeometryCollection (forEach GeometryObject_UnmarshalJSON docs)"
    by (cases "forEach GeometryObject_UnmarshalJSON docs")
       (simp_all add: GeometryObject_UnmarshalJSON.simps [of "AMap kvs" for kvs]
          GeometryObject_dispatch_def type_tags)
  have missing: "GeometryObject_UnmarshalJSON (AMap [(''coordinates'', c)]) = Inl ErrInvalidTypeField"
    by (simp add: GeometryObject_UnmarshalJSON.simps [of "AMap kvs" for kvs]
          GeometryObject_dispatch_def type_tags)
  show ?thesis
    using gc missing by (simp add: GeometryObject_dispatch_def type_tags)
qed

theorem dispatch_spec_witness:
  "GeometryObject_dispatch \<lparr>gType = ''Circle'', gCoordinates = ANil, gGeometries = [], gBBox = []\<rparr>
     = Inl ErrInvalidTypeField
   \<and> GeometryObject_dispatch \<lparr>gType = [], gCoordinates = ANil, gGeometries = [], gBBox = []\<rparr>
     = Inl ErrInvalidTypeField
   \<and> GeometryObject_dispatch
       \<lparr>gType = ''Point'', gCoordinates = ASlice [AFloat64 1, AFloat64 1], gGeometries = [],
        gBBox = []\<rparr> = Inr (Point [1, 1] False)
   \<and> GeometryObject_dispatch
       \<lparr>gType = ''LineString'', gCoordinates = ASlice [ASlice [AFloat64 1, AFloat64 1]],
        gGeometries = [], gBBox = []\<rparr> = Inl ErrLineStringTooShort
   \<and> GeometryObject_dispatch
       \<lparr>gType = ''MultiPoint'', gCoordinates = ASlice [ASlice [AFloat64 1, AFloat64 1]],
        gGeometries = [], gBBox = []\<rparr> = Inr (MultiPoint [[1, 1]] False)
   \<and> GeometryObject_dispatch
       \<lparr>gType = ''MultiLineString'', gCoordinates = ASlice [], gGeometries = [], gBBox = []\<rparr>
     = Inl ErrMultiLineStringTooShort
   \<and> GeometryObject_dispatch
       \<lparr>gType = ''Polygon'', gCoordinates = ASlice [ASlice []], gGeometries = [], gBBox = []\<rparr>
     = Inl ErrLinearRingSize
   \<and> GeometryObject_dispatch
       \<lparr>gType = ''MultiPolygon'', gCoordinates = ASlice [], gGeometries = [], gBBox = []\<rparr>
     = Inr (MultiPolygon [] False)
   \<and> GeometryObject_dispatch
       \<lparr>gType = ''GeometryCollection'', gCoordinates = ANil,
        gGeometries = [Point [1, 1] False], gBBox = []\<rparr>
     = Inr (GeometryCollection [Point [1, 1] False])"
  using
    dispatch_spec [of "\<lparr>gType = ''Circle'', gCoordinates = ANil, gGeometries = [], gBBox = []\<rparr>"]
    dispatch_spec [of "\<lparr>gType = [], gCoordinates = ANil, gGeometries = [], gBBox = []\<rparr>"]
    dispatch_spec [of "\<lparr>gType = ''Point'', gCoordinates = ASlice [AFloat64 1, AFloat64 1],
                         gGeometries = [], gBBox = []\<rparr>"]
    dispatch_spec [of "\<lparr>gType = ''LineString'', gCoordinates = ASlice [ASlice [AFloat64 1, AFloat64 1]],
                         gGeometries = [], gBBox = []\<rparr>"]
    dispatch_spec [of "\<lparr>gType = ''MultiPoint'', gCoordinates = ASlice [ASlice [AFloat64 1, AFloat64 1]],
                         gGeometries = [], gBBox = []\<rparr>"]
    dispatch_spec [of "\<lparr>gType = ''MultiLineString'', gCoordinates = ASlice [], gGeometries = [],
                         gBBox = []\<rparr>"]
    dispatch_spec [of "\<lparr>gType = ''Polygon'', gCoordinates = ASlice [ASlice []], gGeometries = [],
                         gBBox = []\<rparr>"]
    dispatch_spec [of "\<lparr>gType = ''MultiPolygon'', gCoordinates = ASlice [], gGeometries = [],
                         gBBox = []\<rparr>"]
    dispatch_spec [of "\<lparr>gType = ''GeometryCollection'', gCoordinates = ANil,
                         gGeometries = [Point [1, 1] False], gBBox = []\<rparr>"]
  by (simp add: NewCoordinates_eq NewLinearRing_def HasValidSize_def geo_consts)

section \<open>Encoding a geometry and decoding it again\<close>













lemma valid_Coordinates_wf_ring: "list_all valid_Coordinates r \<Longrightarrow> wf_ring r"
  by (auto simp: wf_ring_def list_all_iff valid_Coordinates_def)
















section \<open>Features without geometry\<close>







end
